theory Spec2Isabelle
  imports Complex_Main "HOL-Library.Sublist"
begin

section \<open>Python values, exceptions and text\<close>

text \<open>
  A Python \<open>str\<close> is represented by the list of its UTF-8 bytes, so \<open>string\<close> stands for
  well-formed text and \<open>str.encode("utf-8")\<close> is the identity.  Times (\<open>time.time()\<close>,
  \<open>startup_timeout\<close>, the argument of \<open>time.sleep\<close>) are exact rationals in seconds.
\<close>

datatype exn_class =
    HTTPError | ValueError | TimeoutError | JSONDecodeError | UnicodeDecodeError
  | TimeoutExpired | URLError | OSError | AssertionError

text \<open>
  An exception object: its class, \<open>str(exc)\<close>, and \<open>__cause__\<close> (set by
  \<open>raise ... from cause\<close>).
\<close>

datatype py_exn = Exn exn_class string "py_exn option"

fun exn_class_of :: "py_exn \<Rightarrow> exn_class" where
  "exn_class_of (Exn k m c) = k"

fun exn_str :: "py_exn \<Rightarrow> string" where
  "exn_str (Exn k m c) = m"

fun exn_cause :: "py_exn \<Rightarrow> py_exn option" where
  "exn_cause (Exn k m c) = c"

text \<open>The values an action dictionary (\<open>Dict[str, Any]\<close>) holds.\<close>

datatype pyval = PyNone | PyBool bool | PyInt int | PyStr string

text \<open>Truthiness, as \<open>not url\<close> tests it.\<close>

fun truthy :: "pyval \<Rightarrow> bool" where
  "truthy PyNone = False"
| "truthy (PyBool b) = b"
| "truthy (PyInt i) = (i \<noteq> 0)"
| "truthy (PyStr s) = (s \<noteq> [])"

definition digit_char :: "nat \<Rightarrow> char" where
  "digit_char d = ''0123456789'' ! d"

function str_nat :: "nat \<Rightarrow> string" where
  "str_nat n = (if n < 10 then [digit_char n] else str_nat (n div 10) @ [digit_char (n mod 10)])"
  by pat_completeness auto
termination
  by (relation "measure id") auto

declare str_nat.simps [simp del]

definition str_int :: "int \<Rightarrow> string" where
  "str_int i = (if i < 0 then CHR ''-'' # str_nat (nat (- i)) else str_nat (nat i))"

text \<open>\<open>str(v)\<close>, which is also what an f-string field \<open>{v}\<close> inserts.\<close>

fun py_str :: "pyval \<Rightarrow> string" where
  "py_str PyNone = ''None''"
| "py_str (PyBool b) = (if b then ''True'' else ''False'')"
| "py_str (PyInt i) = str_int i"
| "py_str (PyStr s) = s"

section \<open>\<open>urllib.parse.urlencode\<close>\<close>

definition always_safe :: "char \<Rightarrow> bool" where
  "always_safe ch \<longleftrightarrow>
     ch \<in> set ''ABCDEFGHIJKLMNOPQRSTUVWXYZabcdefghijklmnopqrstuvwxyz0123456789_.-~''"

definition hex_digit :: "nat \<Rightarrow> char" where
  "hex_digit d = ''0123456789ABCDEF'' ! d"

text \<open>\<open>'%{:02X}'.format(byte)\<close>\<close>

definition percent_byte :: "char \<Rightarrow> string" where
  "percent_byte ch =
     [CHR ''%'', hex_digit ((of_char ch :: nat) div 16), hex_digit ((of_char ch :: nat) mod 16)]"

definition quote_byte :: "string \<Rightarrow> char \<Rightarrow> string" where
  "quote_byte safe ch = (if always_safe ch \<or> ch \<in> set safe then [ch] else percent_byte ch)"

definition quote :: "string \<Rightarrow> string \<Rightarrow> string" where
  "quote s safe = concat (map (quote_byte safe) s)"

definition replace_char :: "char \<Rightarrow> char \<Rightarrow> string \<Rightarrow> string" where
  "replace_char a b s = map (\<lambda>ch. if ch = a then b else ch) s"

definition quote_plus :: "string \<Rightarrow> string" where
  "quote_plus s =
     (if CHR '' '' \<notin> set s then quote s []
      else replace_char (CHR '' '') (CHR ''+'') (quote s '' ''))"

text \<open>\<open>urlencode\<close> of a mapping, given as its items in order: \<open>k=v\<close> pairs joined by \<open>&\<close>.\<close>

fun urlencode :: "(string \<times> pyval) list \<Rightarrow> string" where
  "urlencode [] = []"
| "urlencode [(k, v)] = quote_plus k @ ''='' @ quote_plus (py_str v)"
| "urlencode ((k, v) # kvs) = quote_plus k @ ''='' @ quote_plus (py_str v) @ ''&'' @ urlencode kvs"

text \<open>
  The reading of a query component that the encoding is meant for: \<open>+\<close> is a space and
  \<open>%XX\<close> is the byte with that hexadecimal code.
\<close>

definition unhex :: "char \<Rightarrow> nat option" where
  "unhex ch =
     (let n = (of_char ch :: nat) in
      if 48 \<le> n \<and> n \<le> 57 then Some (n - 48)
      else if 65 \<le> n \<and> n \<le> 70 then Some (n - 55)
      else if 97 \<le> n \<and> n \<le> 102 then Some (n - 87)
      else None)"

fun unquote_plus :: "string \<Rightarrow> string" where
  "unquote_plus [] = []"
| "unquote_plus (c # cs) =
     (if c = CHR ''+'' then CHR '' '' # unquote_plus cs
      else if c = CHR ''%'' then
        (case cs of
           h # l # rest \<Rightarrow>
             (case (unhex h, unhex l) of
                (Some a, Some b) \<Rightarrow> char_of (16 * a + b) # unquote_plus rest
              | _ \<Rightarrow> c # unquote_plus cs)
         | _ \<Rightarrow> c # unquote_plus cs)
      else c # unquote_plus cs)"

section \<open>The world outside the controller\<close>

text \<open>
  A tab descriptor is whatever JSON value the endpoint returns; the controller forwards it
  without looking inside.
\<close>

datatype json =
    JNull | JBool bool | JNum int | JStr string | JArr "json list" | JObj "(string \<times> json) list"

text \<open>
  The bytes of a response body, by what \<open>json.loads(payload.decode("utf-8"))\<close> makes of
  them: a JSON document, text that is not JSON (with the decoder's message), or bytes that
  are not UTF-8 (with the codec's message).
\<close>

datatype payload = JsonDoc json | NotJson string | NotUtf8 string

text \<open>What one call of the HTTP client does: it returns or raises, after some time.\<close>

record reply =
  outcome :: "py_exn + payload"
  elapsed :: rat

datatype proc_state = Running | Exited int

text \<open>
  An operating-system process behind a \<open>Popen\<close> object: whether it still runs, and how it
  reacts to SIGTERM (the exit status it ends with, or \<open>None\<close> when it keeps running).
\<close>

record proc =
  state :: proc_state
  on_term :: "int option"

datatype event =
    Request string
  | Sleep rat
  | Spawn "string list"
  | Terminate nat
  | Exec "string list"

text \<open>
  The world: the wall clock, the trace of effects so far (requests handed to the HTTP
  client, sleeps, calls of the process factory, calls of \<open>Popen.terminate\<close>, commands run),
  and the process table.  A \<open>Popen\<close> object is its index in the table.
\<close>

record world =
  now :: rat
  events :: "event list"
  procs :: "nat \<Rightarrow> proc"
  nprocs :: nat

text \<open>\<open>time.sleep(d)\<close>\<close>

definition sleep :: "rat \<Rightarrow> world \<Rightarrow> world" where
  "sleep d w = w\<lparr>now := now w + d, events := events w @ [Sleep d]\<rparr>"

text \<open>\<open>Popen.poll()\<close>: \<open>None\<close> while the process runs.\<close>

definition popen_poll :: "nat \<Rightarrow> world \<Rightarrow> int option" where
  "popen_poll h w = (case state (procs w h) of Running \<Rightarrow> None | Exited rc \<Rightarrow> Some rc)"

text \<open>\<open>Popen.terminate()\<close>: the call is recorded, and a running process reacts to the signal.\<close>

definition popen_terminate :: "nat \<Rightarrow> world \<Rightarrow> world" where
  "popen_terminate h w =
     (let p = procs w h;
          p' = (case state p of
                  Running \<Rightarrow> (case on_term p of Some rc \<Rightarrow> p\<lparr>state := Exited rc\<rparr> | None \<Rightarrow> p)
                | Exited rc \<Rightarrow> p)
      in w\<lparr>events := events w @ [Terminate h], procs := (procs w)(h := p')\<rparr>)"

text \<open>
  \<open>Popen.wait(timeout=t)\<close>: the exit status at once when the process has exited, otherwise
  \<open>TimeoutExpired\<close> after \<open>t\<close> seconds.
\<close>

definition popen_wait :: "nat \<Rightarrow> rat \<Rightarrow> world \<Rightarrow> (py_exn + int) \<times> world" where
  "popen_wait h t w =
     (case state (procs w h) of
        Exited rc \<Rightarrow> (Inr rc, w)
      | Running \<Rightarrow> (Inl (Exn TimeoutExpired ''timed out'' None), w\<lparr>now := now w + t\<rparr>))"

section \<open>\<open>_ProcessHandle\<close>\<close>

definition handle_terminate :: "nat \<Rightarrow> world \<Rightarrow> world" where
  "handle_terminate h w = (if popen_poll h w = None then popen_terminate h w else w)"

text \<open>The only caller passes \<open>timeout=5\<close>, so the timeout is a number here.\<close>

definition handle_wait :: "nat \<Rightarrow> rat \<Rightarrow> world \<Rightarrow> (py_exn + int option) \<times> world" where
  "handle_wait h t w =
     (case popen_wait h t w of
        (Inr rc, w') \<Rightarrow> (Inr (Some rc), w')
      | (Inl e, w') \<Rightarrow>
          if exn_class_of e = TimeoutExpired then (Inr None, w') else (Inl e, w'))"

definition handle_is_running :: "nat \<Rightarrow> world \<Rightarrow> bool" where
  "handle_is_running h w \<longleftrightarrow> popen_poll h w = None"

section \<open>\<open>_DefaultHTTPClient\<close>\<close>

text \<open>
  \<open>urlopen\<close> stands for \<open>urllib.request.urlopen(req, timeout=5)\<close> followed by
  \<open>response.read()\<close>: the network decides what it does.
\<close>

definition default_request :: "(world \<Rightarrow> string \<Rightarrow> reply) \<Rightarrow> world \<Rightarrow> string \<Rightarrow> reply" where
  "default_request urlopen w url =
     (let r = urlopen w url
      in case outcome r of
           Inr body \<Rightarrow> r
         | Inl exc \<Rightarrow>
             r\<lparr>outcome :=
                 Inl (Exn HTTPError
                        (''DevTools endpoint request failed for '' @ url @ '': '' @ exn_str exc)
                        (Some exc))\<rparr>)"

section \<open>\<open>BrowserController\<close>\<close>

record controller =
  chrome_path :: string
  remote_debugging_port :: int
  host :: string
  startup_timeout :: rat
  http_client :: "world \<Rightarrow> string \<Rightarrow> reply"
  process_factory :: "world \<Rightarrow> string list \<Rightarrow> py_exn + proc"
  process :: "nat option"

text \<open>\<open>_request\<close>: the call takes the time the client takes; the clock never runs backwards.\<close>

definition request :: "controller \<Rightarrow> string \<Rightarrow> world \<Rightarrow> (py_exn + payload) \<times> world" where
  "request c path w =
     (let url = ''http://'' @ host c @ '':'' @ str_int (remote_debugging_port c) @ path;
          r = http_client c w url
      in (outcome r, w\<lparr>now := now w + max 0 (elapsed r), events := events w @ [Request url]\<rparr>))"

text \<open>\<open>json.loads(payload.decode("utf-8"))\<close>\<close>

definition json_loads :: "payload \<Rightarrow> py_exn + json" where
  "json_loads p =
     (case p of
        JsonDoc j \<Rightarrow> Inr j
      | NotJson msg \<Rightarrow> Inl (Exn JSONDecodeError msg None)
      | NotUtf8 msg \<Rightarrow> Inl (Exn UnicodeDecodeError msg None))"

definition request_json :: "controller \<Rightarrow> string \<Rightarrow> world \<Rightarrow> (py_exn + json) \<times> world" where
  "request_json c path w =
     (case request c path w of
        (Inl e, w') \<Rightarrow> (Inl e, w')
      | (Inr payload, w') \<Rightarrow> (json_loads payload, w'))"

definition list_tabs :: "controller \<Rightarrow> world \<Rightarrow> (py_exn + json) \<times> world" where
  "list_tabs c w = request_json c ''/json/list'' w"

definition open_tab :: "controller \<Rightarrow> pyval \<Rightarrow> world \<Rightarrow> (py_exn + json) \<times> world" where
  "open_tab c url w =
     (let query = urlencode [(''url'', url)] in request_json c (''/json/new?'' @ query) w)"

definition close_tab :: "controller \<Rightarrow> pyval \<Rightarrow> world \<Rightarrow> (py_exn + json) \<times> world" where
  "close_tab c target_id w = request_json c (''/json/close/'' @ py_str target_id) w"

definition activate_tab :: "controller \<Rightarrow> pyval \<Rightarrow> world \<Rightarrow> (py_exn + json) \<times> world" where
  "activate_tab c target_id w = request_json c (''/json/activate/'' @ py_str target_id) w"

type_synonym action = "string \<rightharpoonup> pyval"

text \<open>\<open>action.get(key)\<close>\<close>

definition dict_get :: "action \<Rightarrow> string \<Rightarrow> pyval" where
  "dict_get action key = (case action key of None \<Rightarrow> PyNone | Some v \<Rightarrow> v)"

definition quoted :: "string \<Rightarrow> string" where
  "quoted s = CHR 0x27 # s @ [CHR 0x27]"

definition execute_action :: "controller \<Rightarrow> action \<Rightarrow> world \<Rightarrow> (py_exn + json) \<times> world" where
  "execute_action c action w =
     (let action_type = dict_get action ''type'' in
      if action_type = PyStr ''open_url'' then
        (let url = dict_get action ''url'' in
         if \<not> truthy url
         then (Inl (Exn ValueError (''open_url action requires a '' @ quoted ''url'') None), w)
         else open_tab c url w)
      else if action_type = PyStr ''activate'' then
        (let target_id = dict_get action ''target_id'' in
         if \<not> truthy target_id
         then (Inl (Exn ValueError (''activate action requires a '' @ quoted ''target_id'') None), w)
         else activate_tab c target_id w)
      else if action_type = PyStr ''close'' then
        (let target_id = dict_get action ''target_id'' in
         if \<not> truthy target_id
         then (Inl (Exn ValueError (''close action requires a '' @ quoted ''target_id'') None), w)
         else close_tab c target_id w)
      else (Inl (Exn ValueError (''Unsupported action type: '' @ py_str action_type) None), w))"

text \<open>The loop of \<open>perform_actions\<close>, with \<open>results\<close> as its accumulator.\<close>

fun perform_loop ::
  "controller \<Rightarrow> action list \<Rightarrow> json list \<Rightarrow> world \<Rightarrow> (py_exn + json list) \<times> world" where
  "perform_loop c [] results w = (Inr results, w)"
| "perform_loop c (action # actions) results w =
     (case execute_action c action w of
        (Inl e, w') \<Rightarrow> (Inl e, w')
      | (Inr r, w') \<Rightarrow> perform_loop c actions (results @ [r]) w')"

definition perform_actions ::
  "controller \<Rightarrow> action list \<Rightarrow> world \<Rightarrow> (py_exn + json list) \<times> world" where
  "perform_actions c actions w = perform_loop c actions [] w"

text \<open>
  The loop of \<open>_wait_until_ready\<close>.  Every failed round moves the clock on by at least
  half a second, so the loop ends.
\<close>

function wait_loop ::
  "controller \<Rightarrow> rat \<Rightarrow> py_exn option \<Rightarrow> world \<Rightarrow> (py_exn + unit) \<times> world" where
  "wait_loop c deadline last_error w =
     (if now w < deadline then
        (case list_tabs c w of
           (Inr tabs, w') \<Rightarrow> (Inr (), w')
         | (Inl exc, w') \<Rightarrow> wait_loop c deadline (Some exc) (sleep (1 / 2) w'))
      else (Inl (Exn TimeoutError ''Browser did not become ready in time'' last_error), w))"
  by pat_completeness auto
termination
proof (relation "measure (\<lambda>(c, deadline, last_error, w). nat \<lceil>2 * (deadline - now w)\<rceil>)")
  show "wf (measure (\<lambda>(c, deadline, last_error, w). nat \<lceil>2 * (deadline - now w)\<rceil>))"
    by simp
next
  fix c :: controller and deadline :: rat and last_error :: "py_exn option" and w :: world
    and x :: "py_exn + json" and y :: world and a :: py_exn
  assume lt: "now w < deadline" and call: "(x, y) = list_tabs c w" and "x = Inl a"
  have ge: "now w \<le> now y"
    using call [symmetric]
    by (auto simp: list_tabs_def request_json_def request_def Let_def split: prod.splits sum.splits)
  have "\<lceil>2 * (deadline - now (sleep (1 / 2) y))\<rceil> \<le> \<lceil>2 * (deadline - now w) - 1\<rceil>"
    using ge by (intro ceiling_mono) (simp add: sleep_def)
  also have "\<dots> = \<lceil>2 * (deadline - now w)\<rceil> - 1"
    by simp
  finally have "\<lceil>2 * (deadline - now (sleep (1 / 2) y))\<rceil> < \<lceil>2 * (deadline - now w)\<rceil>"
    by simp
  moreover have "0 < \<lceil>2 * (deadline - now w)\<rceil>"
    using lt by simp
  ultimately show "((c, deadline, Some a, sleep (1 / 2) y), (c, deadline, last_error, w))
    \<in> measure (\<lambda>(c, deadline, last_error, w). nat \<lceil>2 * (deadline - now w)\<rceil>)"
    by simp
qed

declare wait_loop.simps [simp del]

definition wait_until_ready :: "controller \<Rightarrow> world \<Rightarrow> (py_exn + unit) \<times> world" where
  "wait_until_ready c w =
     (let deadline = now w + startup_timeout c in wait_loop c deadline None w)"

text \<open>The argument list \<open>launch_browser\<close> builds, step by step as the code does.\<close>

definition launch_args ::
  "controller \<Rightarrow> bool \<Rightarrow> string option \<Rightarrow> string list option \<Rightarrow> string list" where
  "launch_args c headless user_data_dir additional_args =
     (let args0 = [chrome_path c,
                   ''--remote-debugging-port='' @ str_int (remote_debugging_port c),
                   ''--remote-allow-origins=*''];
          args1 = (if headless then args0 @ [''--headless=new''] else args0);
          args2 = (case user_data_dir of
                     None \<Rightarrow> args1
                   | Some d \<Rightarrow> if d \<noteq> [] then args1 @ [''--user-data-dir='' @ d] else args1);
          args3 = (case additional_args of
                     None \<Rightarrow> args2
                   | Some extra \<Rightarrow> if extra \<noteq> [] then args2 @ extra else args2)
      in args3)"

text \<open>
  \<open>self._process_factory(args)\<close>: the call is recorded; the factory raises, or the new
  process enters the table and its index is the \<open>Popen\<close> object.
\<close>

definition spawn :: "controller \<Rightarrow> string list \<Rightarrow> world \<Rightarrow> (py_exn + nat) \<times> world" where
  "spawn c args w =
     (let w1 = w\<lparr>events := events w @ [Spawn args]\<rparr>
      in case process_factory c w args of
           Inl e \<Rightarrow> (Inl e, w1)
         | Inr p \<Rightarrow> (Inr (nprocs w), w1\<lparr>procs := (procs w)(nprocs w := p), nprocs := Suc (nprocs w)\<rparr>))"

definition launch_browser ::
  "controller \<Rightarrow> bool \<Rightarrow> string option \<Rightarrow> string list option \<Rightarrow> world
     \<Rightarrow> (py_exn + unit) \<times> controller \<times> world" where
  "launch_browser c headless user_data_dir additional_args w =
     (if (case process c of None \<Rightarrow> False | Some h \<Rightarrow> handle_is_running h w) then (Inr (), c, w)
      else
        (let args = launch_args c headless user_data_dir additional_args
         in case spawn c args w of
              (Inl e, w1) \<Rightarrow> (Inl e, c, w1)
            | (Inr popen, w1) \<Rightarrow>
                (let c1 = c\<lparr>process := Some popen\<rparr>
                 in case wait_until_ready c1 w1 of (r, w2) \<Rightarrow> (r, c1, w2))))"

definition is_browser_running :: "controller \<Rightarrow> world \<Rightarrow> bool" where
  "is_browser_running c w =
     (case process c of None \<Rightarrow> False | Some h \<Rightarrow> handle_is_running h w)"

definition terminate_browser ::
  "controller \<Rightarrow> world \<Rightarrow> (py_exn + unit) \<times> controller \<times> world" where
  "terminate_browser c w =
     (case process c of
        None \<Rightarrow> (Inr (), c, w)
      | Some h \<Rightarrow>
          (let w1 = handle_terminate h w
           in case handle_wait h 5 w1 of
                (Inl e, w2) \<Rightarrow> (Inl e, c, w2)
              | (Inr rc, w2) \<Rightarrow> (Inr (), c\<lparr>process := None\<rparr>, w2)))"

section \<open>\<open>NativeBridge\<close>\<close>

record completed_process =
  args :: "string list"
  returncode :: int
  stdout :: string
  stderr :: string

text \<open>
  What \<open>run\<close> can raise: \<open>SecurityError\<close> with its message, \<open>CalledProcessError\<close> with the
  exit status, the command and the captured output, or whatever the operating system
  raised when the command could not be started.
\<close>

datatype run_error =
    SecurityError string
  | CalledProcessError int "string list" string string
  | StartError py_exn

record native_bridge =
  allowlist :: "string \<rightharpoonup> string list"
  environment :: "(string \<times> string) list"

text \<open>
  The operating system, for \<open>subprocess.run\<close>: given the command and the environment, the
  command cannot be started, or it ends with an exit status, standard output and standard
  error.
\<close>

type_synonym os = "string list \<Rightarrow> (string \<times> string) list \<Rightarrow> py_exn + int \<times> string \<times> string"

text \<open>\<open>subprocess.run(args, env=env, text=True, capture_output=True, check=True)\<close>\<close>

definition subprocess_run ::
  "os \<Rightarrow> string list \<Rightarrow> (string \<times> string) list \<Rightarrow> world
     \<Rightarrow> (run_error + completed_process) \<times> world" where
  "subprocess_run os cmd env w =
     (let w1 = w\<lparr>events := events w @ [Exec cmd]\<rparr>
      in case os cmd env of
           Inl e \<Rightarrow> (Inl (StartError e), w1)
         | Inr (rc, out, err) \<Rightarrow>
             if rc \<noteq> 0 then (Inl (CalledProcessError rc cmd out err), w1)
             else (Inr \<lparr>args = cmd, returncode = rc, stdout = out, stderr = err\<rparr>, w1))"

definition is_allowed :: "native_bridge \<Rightarrow> string \<Rightarrow> bool" where
  "is_allowed b name \<longleftrightarrow> allowlist b name \<noteq> None"

text \<open>The loop over \<open>extra_args\<close> in \<open>run\<close>, with \<open>args\<close> as its accumulator.\<close>

fun extend_args :: "string list \<Rightarrow> string list \<Rightarrow> run_error + string list" where
  "extend_args cmd [] = Inr cmd"
| "extend_args cmd (arg # rest) =
     (if prefix ''--unsafe'' arg
      then Inl (SecurityError (''Arguments containing '' @ quoted ''--unsafe'' @ '' are blocked''))
      else extend_args (cmd @ [arg]) rest)"

text \<open>
  \<open>run\<close>.  The test \<open>is_allowed(name)\<close> and the lookup \<open>allowlist[name]\<close> are one case
  distinction on the dictionary entry.
\<close>

definition run ::
  "os \<Rightarrow> native_bridge \<Rightarrow> string \<Rightarrow> string list option \<Rightarrow> world
     \<Rightarrow> (run_error + completed_process) \<times> world" where
  "run os b name extra_args w =
     (case allowlist b name of
        None \<Rightarrow> (Inl (SecurityError (''Command '' @ quoted name @ '' is not allowlisted'')), w)
      | Some base_cmd \<Rightarrow>
          (case (case extra_args of
                   None \<Rightarrow> Inr base_cmd
                 | Some xs \<Rightarrow> if xs \<noteq> [] then extend_args base_cmd xs else Inr base_cmd) of
             Inl e \<Rightarrow> (Inl e, w)
           | Inr cmd \<Rightarrow> subprocess_run os cmd (environment b) w))"

section \<open>Notions used to state the properties\<close>

text \<open>The URL a request for \<open>path\<close> goes to.\<close>

definition endpoint :: "controller \<Rightarrow> string \<Rightarrow> string" where
  "endpoint c path = ''http://'' @ host c @ '':'' @ str_int (remote_debugging_port c) @ path"

text \<open>
  Query encoding of one byte: unreserved characters stay, a space becomes \<open>+\<close>, every
  other byte becomes \<open>%XX\<close> in upper-case hexadecimal.
\<close>

definition query_encode_byte :: "char \<Rightarrow> string" where
  "query_encode_byte ch =
     (if always_safe ch then [ch] else if ch = CHR '' '' then ''+'' else percent_byte ch)"

text \<open>The field an action's tag requires; \<open>None\<close> for any other tag.\<close>

definition required_field :: "action \<Rightarrow> string option" where
  "required_field a =
     (if dict_get a ''type'' = PyStr ''open_url'' then Some ''url''
      else if dict_get a ''type'' = PyStr ''activate'' \<or> dict_get a ''type'' = PyStr ''close''
      then Some ''target_id''
      else None)"

text \<open>An action with an unknown tag, or whose required field is absent or empty.\<close>

definition malformed :: "action \<Rightarrow> bool" where
  "malformed a \<longleftrightarrow>
     (case required_field a of None \<Rightarrow> True | Some f \<Rightarrow> \<not> truthy (dict_get a f))"

text \<open>The request path of a well-formed action.\<close>

definition action_path :: "action \<Rightarrow> string" where
  "action_path a =
     (if dict_get a ''type'' = PyStr ''open_url''
      then ''/json/new?url='' @ quote_plus (py_str (dict_get a ''url''))
      else if dict_get a ''type'' = PyStr ''activate''
      then ''/json/activate/'' @ py_str (dict_get a ''target_id'')
      else ''/json/close/'' @ py_str (dict_get a ''target_id''))"

text \<open>
  The world after \<open>n\<close> rounds of the readiness loop that each called \<open>list_tabs\<close> and then
  slept, and the error the round after those raised, if it raised one.
\<close>

fun failed_rounds :: "controller \<Rightarrow> nat \<Rightarrow> world \<Rightarrow> world" where
  "failed_rounds c 0 w = w"
| "failed_rounds c (Suc n) w = failed_rounds c n (sleep (1 / 2) (snd (list_tabs c w)))"

definition round_error :: "controller \<Rightarrow> nat \<Rightarrow> world \<Rightarrow> py_exn option" where
  "round_error c i w =
     (case fst (list_tabs c (failed_rounds c i w)) of Inl e \<Rightarrow> Some e | Inr tabs \<Rightarrow> None)"

text \<open>The four protocol operations, as one family.\<close>

datatype operation = ListTabs | OpenTab pyval | CloseTab pyval | ActivateTab pyval

fun perform :: "controller \<Rightarrow> operation \<Rightarrow> world \<Rightarrow> (py_exn + json) \<times> world" where
  "perform c ListTabs w = list_tabs c w"
| "perform c (OpenTab url) w = open_tab c url w"
| "perform c (CloseTab target_id) w = close_tab c target_id w"
| "perform c (ActivateTab target_id) w = activate_tab c target_id w"

fun operation_path :: "operation \<Rightarrow> string" where
  "operation_path ListTabs = ''/json/list''"
| "operation_path (OpenTab url) = ''/json/new?url='' @ quote_plus (py_str url)"
| "operation_path (CloseTab target_id) = ''/json/close/'' @ py_str target_id"
| "operation_path (ActivateTab target_id) = ''/json/activate/'' @ py_str target_id"

text \<open>
  What the specification calls a protocol error for a URL: an \<open>HTTPError\<close> whose text holds
  the URL and that has a cause.
\<close>

definition protocol_error :: "string \<Rightarrow> py_exn \<Rightarrow> bool" where
  "protocol_error url e \<longleftrightarrow>
     exn_class_of e = HTTPError \<and> sublist url (exn_str e) \<and> exn_cause e \<noteq> None"


definition extras :: "string list option \<Rightarrow> string list" where
  "extras extra_args = (case extra_args of None \<Rightarrow> [] | Some xs \<Rightarrow> xs)"

text \<open>Some argument matches the disallowed pattern.\<close>

definition blocked :: "string list \<Rightarrow> bool" where
  "blocked xs = list_ex (prefix ''--unsafe'') xs"

section \<open>Test doubles and sample inputs\<close>

definition world0 :: world where
  "world0 = \<lparr>now = 0, events = [], procs = (\<lambda>h. \<lparr>state = Exited 0, on_term = None\<rparr>), nprocs = 0\<rparr>"

text \<open>The world in which process 0 runs (and ends with status 0 when told to terminate).\<close>

definition running_world :: world where
  "running_world =
     world0\<lparr>procs := (procs world0)(0 := \<lparr>state = Running, on_term = Some 0\<rparr>), nprocs := 1\<rparr>"

text \<open>\<open>FakeHTTPClient\<close> of the test suite.\<close>

definition fake_http_client :: "world \<Rightarrow> string \<Rightarrow> reply" where
  "fake_http_client w url =
     \<lparr>outcome =
        (if suffix ''/json/list'' url then Inr (JsonDoc (JArr []))
         else if sublist ''/json/new'' url then Inr (JsonDoc (JObj [(''id'', JStr ''target-1'')]))
         else if sublist ''/json/close'' url \<or> sublist ''/json/activate'' url
         then Inr (JsonDoc (JObj [(''status'', JStr ''ok'')]))
         else Inl (Exn AssertionError (''Unexpected URL '' @ url) None)),
      elapsed = 0\<rparr>"

text \<open>\<open>FakeProcess\<close> of the test suite: it runs until it is terminated.\<close>

definition fake_process_factory :: "world \<Rightarrow> string list \<Rightarrow> py_exn + proc" where
  "fake_process_factory w cmd = Inr \<lparr>state = Running, on_term = Some 0\<rparr>"

text \<open>A network on which nothing listens, and one that answers with a page that is not JSON.\<close>

definition refused :: py_exn where
  "refused = Exn URLError ''<urlopen error [Errno 111] Connection refused>'' None"

definition refusing_urlopen :: "world \<Rightarrow> string \<Rightarrow> reply" where
  "refusing_urlopen w url = \<lparr>outcome = Inl refused, elapsed = 0\<rparr>"

definition page_urlopen :: "world \<Rightarrow> string \<Rightarrow> reply" where
  "page_urlopen w url =
     \<lparr>outcome = Inr (NotJson ''Expecting value: line 1 column 1 (char 0)''), elapsed = 0\<rparr>"

definition refused_error :: py_exn where
  "refused_error = Exn HTTPError
      ''DevTools endpoint request failed for http://127.0.0.1:9333/json/list: <urlopen error [Errno 111] Connection refused>''
      (Some refused)"

text \<open>The controller of the test suite's fixture, with a client and a startup timeout.\<close>

definition test_controller :: "(world \<Rightarrow> string \<Rightarrow> reply) \<Rightarrow> rat \<Rightarrow> controller" where
  "test_controller client timeout =
     \<lparr>chrome_path = ''/usr/bin/chrome'', remote_debugging_port = 9333, host = ''127.0.0.1'',
      startup_timeout = timeout, http_client = client, process_factory = fake_process_factory,
      process = None\<rparr>"

definition test_actions :: "action list" where
  "test_actions =
     [[''type'' \<mapsto> PyStr ''open_url'', ''url'' \<mapsto> PyStr ''https://example.com''],
      [''type'' \<mapsto> PyStr ''activate'', ''target_id'' \<mapsto> PyStr ''target-1''],
      [''type'' \<mapsto> PyStr ''close'', ''target_id'' \<mapsto> PyStr ''target-1'']]"

text \<open>Two failed rounds of the readiness loop, as a trace.\<close>

definition polling :: "event list" where
  "polling = [Request ''http://127.0.0.1:9333/json/list'', Sleep (1 / 2),
              Request ''http://127.0.0.1:9333/json/list'', Sleep (1 / 2)]"

definition test_bridge :: native_bridge where
  "test_bridge = \<lparr>allowlist = [''check'' \<mapsto> [''grep'', ''-q'']], environment = []\<rparr>"

text \<open>An operating system on which \<open>grep -q needle\<close> finds nothing and exits with status 1.\<close>

definition grep_os :: os where
  "grep_os cmd env =
     (if cmd = [''grep'', ''-q'', ''needle''] then Inr (1, [], []) else Inr (0, [], []))"

section \<open>URL encoding\<close>

lemma lt16_cases:
  "d < (16::nat) \<Longrightarrow>
   d = 0 \<or> d = 1 \<or> d = 2 \<or> d = 3 \<or> d = 4 \<or> d = 5 \<or> d = 6 \<or> d = 7 \<or> d = 8 \<or> d = 9
     \<or> d = 10 \<or> d = 11 \<or> d = 12 \<or> d = 13 \<or> d = 14 \<or> d = 15"
  by arith

lemma unhex_hex_digit: "d < 16 \<Longrightarrow> unhex (hex_digit d) = Some d"
  by (drule lt16_cases) (auto simp: hex_digit_def unhex_def)

lemma hex_digit_no_space: "d < 16 \<Longrightarrow> hex_digit d \<noteq> CHR '' ''"
  by (drule lt16_cases) (auto simp: hex_digit_def)

lemma always_safe_plain:
  "always_safe ch \<Longrightarrow> ch \<noteq> CHR ''%'' \<and> ch \<noteq> CHR ''+'' \<and> ch \<noteq> CHR '' ''"
  by (auto simp: always_safe_def)

lemma of_char_div16: "(of_char ch :: nat) div 16 < 16"
proof (rule less_mult_imp_div_less)
  have "(of_char ch :: nat) < 256"
    by (cases ch) simp
  then show "(of_char ch :: nat) < 16 * 16"
    by simp
qed

lemma unquote_percent_byte: "unquote_plus (percent_byte ch @ rest) = ch # unquote_plus rest"
  by (simp add: percent_byte_def unhex_hex_digit of_char_div16)

lemma replace_percent_byte:
  "replace_char (CHR '' '') (CHR ''+'') (percent_byte ch) = percent_byte ch"
  by (simp add: replace_char_def percent_byte_def hex_digit_no_space of_char_div16)

lemma quote_byte_nil: "ch \<noteq> CHR '' '' \<Longrightarrow> quote_byte [] ch = query_encode_byte ch"
  by (simp add: quote_byte_def query_encode_byte_def)

lemma quote_byte_space:
  "replace_char (CHR '' '') (CHR ''+'') (quote_byte '' '' ch) = query_encode_byte ch"
  using always_safe_plain [of ch]
  by (auto simp: quote_byte_def query_encode_byte_def replace_percent_byte)
     (simp_all add: replace_char_def)

lemma replace_char_concat:
  "replace_char a b (concat xss) = concat (map (replace_char a b) xss)"
  by (induction xss) (simp_all add: replace_char_def)

lemma quote_plus_bytewise: "quote_plus s = concat (map query_encode_byte s)"
proof (cases "CHR '' '' \<in> set s")
  case False
  then have "map (quote_byte []) s = map query_encode_byte s"
    by (intro map_cong refl quote_byte_nil) auto
  then have "quote s [] = concat (map query_encode_byte s)"
    by (simp only: quote_def)
  with False show ?thesis
    by (simp add: quote_plus_def)
next
  case True
  then show ?thesis
    by (simp add: quote_plus_def quote_def replace_char_concat comp_def quote_byte_space)
qed

lemma unquote_query_encode_byte:
  "unquote_plus (query_encode_byte ch @ rest) = ch # unquote_plus rest"
  using always_safe_plain [of ch]
  by (auto simp: query_encode_byte_def unquote_percent_byte)

lemma unquote_quote_plus: "unquote_plus (quote_plus s) = s"
  unfolding quote_plus_bytewise
  by (induction s) (simp_all add: unquote_query_encode_byte)

lemma quote_plus_url: "quote_plus ''url'' = ''url''"
  by (simp add: quote_plus_def quote_def quote_byte_def always_safe_def)

lemma quote_plus_example: "quote_plus ''https://example.com'' = ''https%3A%2F%2Fexample.com''"
  by (simp add: quote_plus_def quote_def quote_byte_def always_safe_def percent_byte_def
      hex_digit_def)

lemma str_int_9333: "str_int 9333 = ''9333''"
  by (simp add: str_int_def str_nat.simps digit_char_def)

section \<open>Requests and the trace\<close>

lemma events_request_json:
  "events (snd (request_json c path w)) = events w @ [Request (endpoint c path)]"
  by (simp add: request_json_def request_def endpoint_def Let_def split: sum.splits)

lemma procs_request_json: "procs (snd (request_json c path w)) = procs w"
  by (simp add: request_json_def request_def Let_def split: sum.splits)

lemma events_list_tabs:
  "events (snd (list_tabs c w)) = events w @ [Request (endpoint c ''/json/list'')]"
  by (simp add: list_tabs_def events_request_json)

lemma fst_request_json:
  "fst (request_json c path w) =
     (case outcome (http_client c w (endpoint c path)) of
        Inl e \<Rightarrow> Inl e | Inr payload \<Rightarrow> json_loads payload)"
  by (simp add: request_json_def request_def endpoint_def Let_def split: sum.splits)

lemma perform_request_json: "perform c op w = request_json c (operation_path op) w"
  by (cases op)
     (simp_all add: list_tabs_def open_tab_def close_tab_def activate_tab_def quote_plus_url)

lemma sublist_middle: "sublist url (pre @ url @ post)"
  unfolding sublist_def by blast

text \<open>
  The part of the error handling that the transport client does: with the default client,
  every protocol operation turns a transport failure into an \<open>HTTPError\<close> whose text holds
  the failing URL and whose cause is the underlying error.
\<close>

lemma transport_failure_wrapped:
  assumes "http_client c = default_request urlopen"
    and "outcome (urlopen w (endpoint c (operation_path op))) = Inl exc"
  shows "\<exists>e. fst (perform c op w) = Inl e
           \<and> protocol_error (endpoint c (operation_path op)) e \<and> exn_cause e = Some exc"
proof -
  let ?url = "endpoint c (operation_path op)"
  have res: "fst (perform c op w) =
      (case outcome (default_request urlopen w ?url) of
         Inl e \<Rightarrow> Inl e | Inr payload \<Rightarrow> json_loads payload)"
    by (simp only: perform_request_json fst_request_json assms(1))
  have "protocol_error ?url
      (Exn HTTPError (''DevTools endpoint request failed for '' @ ?url @ '': '' @ exn_str exc)
         (Some exc))"
    unfolding protocol_error_def exn_class_of.simps exn_str.simps exn_cause.simps
    using sublist_middle by blast
  with assms(2) res show ?thesis
    by (simp add: default_request_def Let_def)
qed

text \<open>
  The decoding step has no such wrapping in any of the four operations: whatever
  \<open>json.loads(payload.decode("utf-8"))\<close> raises reaches the caller as it is.
\<close>

lemma decode_failure_unwrapped:
  assumes "http_client c = default_request urlopen"
    and "outcome (urlopen w (endpoint c (operation_path op))) = Inr payload"
  shows "fst (perform c op w) = json_loads payload"
  using assms
  by (simp add: perform_request_json fst_request_json default_request_def Let_def)

text \<open>
  Claim C4.  The claim asks that a body that is not valid JSON, like a transport failure,
  reaches the caller as a protocol error that carries the failing URL and the underlying
  cause.  The code does this for transport failures only.  At the input below the default
  client gets a page that is not JSON in answer to \<open>/json/list\<close>, and \<open>list_tabs\<close> raises
  the decoder's bare \<open>JSONDecodeError\<close>: not an \<open>HTTPError\<close>, without the URL and without a
  cause.  This goes against the documentation of \<open>HTTPError\<close> in the source (raised when
  the endpoint returns an unexpected response) and against what the transport path of the
  same operations does.
\<close>

theorem invalid_json_not_wrapped:
  "fst (list_tabs (test_controller (default_request page_urlopen) 15) world0)
     = Inl (Exn JSONDecodeError ''Expecting value: line 1 column 1 (char 0)'' None)
   \<and> \<not> protocol_error ''http://127.0.0.1:9333/json/list''
         (Exn JSONDecodeError ''Expecting value: line 1 column 1 (char 0)'' None)"
  by (simp add: list_tabs_def request_json_def request_def default_request_def page_urlopen_def
      test_controller_def json_loads_def protocol_error_def Let_def)

text \<open>
  Claim C5.  A valid \<open>open_url\<close> action issues exactly one request, to
  \<open>/json/new?url=\<close> followed by the encoded URL.  The encoding is the standard query
  encoding: byte by byte, unreserved characters unchanged, a space as \<open>+\<close>, anything else
  as \<open>%XX\<close>; decoding it gives the URL back.
\<close>

theorem open_url_request_path:
  assumes "dict_get action ''type'' = PyStr ''open_url''"
    and "dict_get action ''url'' = PyStr url" and "url \<noteq> []"
  shows "events (snd (execute_action c action w)) =
           events w @ [Request (''http://'' @ host c @ '':'' @ str_int (remote_debugging_port c)
                                  @ ''/json/new?url='' @ quote_plus url)]
         \<and> quote_plus url = concat (map query_encode_byte url)
         \<and> unquote_plus (quote_plus url) = url"
  using assms
  by (simp add: execute_action_def open_tab_def events_request_json endpoint_def quote_plus_url
      quote_plus_bytewise [symmetric] unquote_quote_plus)

theorem open_url_request_path_witness:
  "events (snd (execute_action (test_controller fake_http_client 15) (test_actions ! 0) world0)) =
     [Request ''http://127.0.0.1:9333/json/new?url=https%3A%2F%2Fexample.com'']
   \<and> unquote_plus ''https%3A%2F%2Fexample.com'' = ''https://example.com''"
proof -
  have tag: "dict_get (test_actions ! 0) ''type'' = PyStr ''open_url''"
    by (simp add: test_actions_def dict_get_def)
  have url: "dict_get (test_actions ! 0) ''url'' = PyStr ''https://example.com''"
    by (simp add: test_actions_def dict_get_def)
  have ne: "''https://example.com'' \<noteq> []"
    by simp
  note inst = open_url_request_path [OF tag url ne, of "test_controller fake_http_client 15" world0,
      unfolded quote_plus_example]
  from inst [THEN conjunct1]
  have "events (snd (execute_action (test_controller fake_http_client 15) (test_actions ! 0) world0)) =
     [Request ''http://127.0.0.1:9333/json/new?url=https%3A%2F%2Fexample.com'']"
    by (simp add: test_controller_def world0_def str_int_9333)
  with inst [THEN conjunct2, THEN conjunct2] show ?thesis
    by (rule conjI [rotated])
qed


section \<open>Dispatch of actions\<close>

lemma falsy_iff:
  "\<not> truthy (dict_get a k) \<longleftrightarrow>
     a k = None \<or> a k = Some PyNone \<or> a k = Some (PyBool False) \<or> a k = Some (PyInt 0)
       \<or> a k = Some (PyStr [])"
  by (cases "a k"; cases "the (a k)") (auto simp: dict_get_def)

lemma sublist_quoted_tail: "sublist (quoted f) (msg @ quoted f)"
  unfolding sublist_def by (intro exI [of _ msg] exI [of _ "[]"]) simp

lemma sublist_type: "sublist ''type'' (''Unsupported action type: '' @ s)"
  unfolding sublist_def
  by (intro exI [of _ "''Unsupported action ''"] exI [of _ "'': '' @ s"]) simp

lemma execute_action_wellformed:
  "\<not> malformed a \<Longrightarrow> execute_action c a w = request_json c (action_path a) w"
  by (auto simp: malformed_def required_field_def execute_action_def action_path_def open_tab_def
      activate_tab_def close_tab_def quote_plus_url split: if_splits)

lemma execute_action_invalid:
  "malformed a \<Longrightarrow> \<exists>msg. execute_action c a w = (Inl (Exn ValueError msg None), w)"
  by (auto simp: malformed_def required_field_def execute_action_def split: if_splits)

lemma events_execute_action:
  "events (snd (execute_action c a w)) =
     events w @ (if malformed a then [] else [Request (endpoint c (action_path a))])"
proof (cases "malformed a")
  case True
  from execute_action_invalid [OF this, of c w] show ?thesis
    using True by auto
next
  case False
  then show ?thesis
    by (simp add: execute_action_wellformed events_request_json)
qed

lemma execute_action_ok_wellformed:
  "execute_action c a w = (Inr r, w') \<Longrightarrow> \<not> malformed a"
  using execute_action_invalid [of a c w] by auto

text \<open>
  Claim C2.  An action whose tag is \<open>open_url\<close>, \<open>activate\<close> or \<open>close\<close> but whose required
  field is absent or empty (falsy, as \<open>not url\<close> tests it), and an action with any other
  tag, is rejected with a \<open>ValueError\<close>, and the world is returned as it was: no request
  has been issued.  For a missing field the text of the error names the field in quotes;
  for another tag the field at fault is \<open>type\<close> itself, and the text is
  \<open>Unsupported action type:\<close> followed by the tag (\<open>None\<close> when the tag is absent).
\<close>

theorem execute_action_rejects_malformed:
  assumes "malformed a"
  shows "\<exists>msg. execute_action c a w = (Inl (Exn ValueError msg None), w)
           \<and> (case required_field a of
                 Some f \<Rightarrow> sublist (quoted f) msg
               | None \<Rightarrow>
                   sublist ''type'' msg
                   \<and> msg = ''Unsupported action type: '' @ py_str (dict_get a ''type''))"
proof -
  consider (open_url) "dict_get a ''type'' = PyStr ''open_url''"
    | (activate) "dict_get a ''type'' = PyStr ''activate''"
    | (close) "dict_get a ''type'' = PyStr ''close''"
    | (other) "dict_get a ''type'' \<noteq> PyStr ''open_url''"
        "dict_get a ''type'' \<noteq> PyStr ''activate''" "dict_get a ''type'' \<noteq> PyStr ''close''"
    by blast
  then show ?thesis
  proof cases
    case open_url
    then have rf: "required_field a = Some ''url''"
      by (simp add: required_field_def)
    with assms have "\<not> truthy (dict_get a ''url'')"
      by (simp add: malformed_def)
    with open_url have "execute_action c a w =
        (Inl (Exn ValueError (''open_url action requires a '' @ quoted ''url'') None), w)"
      by (simp add: execute_action_def)
    moreover have "sublist (quoted ''url'') (''open_url action requires a '' @ quoted ''url'')"
      by (rule sublist_quoted_tail)
    ultimately show ?thesis
      unfolding rf option.case by blast
  next
    case activate
    then have rf: "required_field a = Some ''target_id''"
      by (simp add: required_field_def)
    with assms have "\<not> truthy (dict_get a ''target_id'')"
      by (simp add: malformed_def)
    with activate have "execute_action c a w =
        (Inl (Exn ValueError (''activate action requires a '' @ quoted ''target_id'') None), w)"
      by (simp add: execute_action_def)
    moreover have
      "sublist (quoted ''target_id'') (''activate action requires a '' @ quoted ''target_id'')"
      by (rule sublist_quoted_tail)
    ultimately show ?thesis
      unfolding rf option.case by blast
  next
    case close
    then have rf: "required_field a = Some ''target_id''"
      by (simp add: required_field_def)
    with assms have "\<not> truthy (dict_get a ''target_id'')"
      by (simp add: malformed_def)
    with close have "execute_action c a w =
        (Inl (Exn ValueError (''close action requires a '' @ quoted ''target_id'') None), w)"
      by (simp add: execute_action_def)
    moreover have
      "sublist (quoted ''target_id'') (''close action requires a '' @ quoted ''target_id'')"
      by (rule sublist_quoted_tail)
    ultimately show ?thesis
      unfolding rf option.case by blast
  next
    case other
    then have rf: "required_field a = None"
      by (simp add: required_field_def)
    from other have "execute_action c a w =
        (Inl (Exn ValueError (''Unsupported action type: '' @ py_str (dict_get a ''type'')) None), w)"
      by (simp add: execute_action_def)
    moreover have "sublist ''type'' (''Unsupported action type: '' @ py_str (dict_get a ''type''))"
      by (rule sublist_type)
    ultimately show ?thesis
      unfolding rf option.case by blast
  qed
qed

theorem execute_action_rejects_malformed_witness:
  "malformed [''type'' \<mapsto> PyStr ''open_url'', ''url'' \<mapsto> PyStr []]
   \<and> (\<exists>msg. execute_action (test_controller fake_http_client 15)
               [''type'' \<mapsto> PyStr ''open_url'', ''url'' \<mapsto> PyStr []] world0
             = (Inl (Exn ValueError msg None), world0)
          \<and> sublist (quoted ''url'') msg)"
proof -
  have m: "malformed [''type'' \<mapsto> PyStr ''open_url'', ''url'' \<mapsto> PyStr []]"
    by (simp add: malformed_def required_field_def dict_get_def)
  have r: "required_field [''type'' \<mapsto> PyStr ''open_url'', ''url'' \<mapsto> PyStr []] = Some ''url''"
    by (simp add: required_field_def dict_get_def)
  from execute_action_rejects_malformed [OF m, of "test_controller fake_http_client 15" world0]
  show ?thesis
    unfolding r option.case using m by blast
qed

section \<open>Batches of actions\<close>

lemma perform_loop_run:
  "perform_loop c as rs0 w = (res, w') \<Longrightarrow>
   \<exists>k ws rs. k \<le> length as \<and> length ws = Suc k \<and> length rs = k \<and> ws ! 0 = w
     \<and> (\<forall>i<k. execute_action c (as ! i) (ws ! i) = (Inr (rs ! i), ws ! Suc i))
     \<and> events (ws ! k) = events w @ map (\<lambda>a. Request (endpoint c (action_path a))) (take k as)
     \<and> (res = Inr (rs0 @ rs) \<and> k = length as \<and> w' = ws ! k
         \<or> (\<exists>e. res = Inl e \<and> k < length as \<and> execute_action c (as ! k) (ws ! k) = (Inl e, w')))"
proof (induction as arbitrary: rs0 w)
  case Nil
  then show ?case
    by (intro exI [of _ 0] exI [of _ "[w]"] exI [of _ "[]"]) simp
next
  case (Cons a as)
  obtain r1 w1 where step: "execute_action c a w = (r1, w1)"
    by (cases "execute_action c a w")
  show ?case
  proof (cases r1)
    case (Inl e)
    with Cons.prems step have "res = Inl e" "w' = w1"
      by simp_all
    with step Inl show ?thesis
      by (intro exI [of _ 0] exI [of _ "[w]"] exI [of _ "[]"]) simp
  next
    case (Inr r)
    with Cons.prems step have "perform_loop c as (rs0 @ [r]) w1 = (res, w')"
      by simp
    from Cons.IH [OF this] obtain k ws rs where
      k: "k \<le> length as" and lws: "length ws = Suc k" and lrs: "length rs = k"
      and ws0: "ws ! 0 = w1"
      and steps: "\<forall>i<k. execute_action c (as ! i) (ws ! i) = (Inr (rs ! i), ws ! Suc i)"
      and ev: "events (ws ! k)
                 = events w1 @ map (\<lambda>a. Request (endpoint c (action_path a))) (take k as)"
      and fin: "res = Inr ((rs0 @ [r]) @ rs) \<and> k = length as \<and> w' = ws ! k
         \<or> (\<exists>e. res = Inl e \<and> k < length as
               \<and> execute_action c (as ! k) (ws ! k) = (Inl e, w'))"
      by blast
    have wf: "\<not> malformed a"
      using step Inr by (auto dest: execute_action_ok_wellformed)
    have ev1: "events w1 = events w @ [Request (endpoint c (action_path a))]"
      using events_execute_action [of c a w] step wf by simp
    have steps': "\<forall>i<Suc k. execute_action c ((a # as) ! i) ((w # ws) ! i)
                     = (Inr ((r # rs) ! i), (w # ws) ! Suc i)"
    proof (intro allI impI)
      fix i assume "i < Suc k"
      show "execute_action c ((a # as) ! i) ((w # ws) ! i)
              = (Inr ((r # rs) ! i), (w # ws) ! Suc i)"
      proof (cases i)
        case 0
        then show ?thesis
          using step Inr ws0 by simp
      next
        case (Suc j)
        with \<open>i < Suc k\<close> have "j < k"
          by simp
        with steps Suc show ?thesis
          by simp
      qed
    qed
    show ?thesis
      apply (intro exI [of _ "Suc k"] exI [of _ "w # ws"] exI [of _ "r # rs"])
      using k lws lrs steps' ev ev1 fin by auto
  qed
qed

text \<open>
  Claim C3.  \<open>perform_actions\<close> runs the actions one after the other in the order of the
  list: there are worlds \<open>ws\<close>, starting with the initial one, such that action \<open>i\<close> is
  dispatched in world \<open>i\<close>, succeeds with result \<open>i\<close> and leaves world \<open>i + 1\<close>, and the trace
  grows by the requests of these actions in list order.  Either all actions succeed and
  the results come back in that order, or action \<open>k\<close> fails: then the outcome is its error
  in the world its attempt left, no later action has been dispatched, and everything the
  earlier actions did is still in the trace.
\<close>

theorem perform_actions_sequential:
  assumes "perform_actions c actions w = (res, w')"
  shows "\<exists>k ws rs. k \<le> length actions \<and> length ws = Suc k \<and> length rs = k \<and> ws ! 0 = w
     \<and> (\<forall>i<k. execute_action c (actions ! i) (ws ! i) = (Inr (rs ! i), ws ! Suc i))
     \<and> events (ws ! k)
          = events w @ map (\<lambda>a. Request (endpoint c (action_path a))) (take k actions)
     \<and> (res = Inr rs \<and> k = length actions \<and> w' = ws ! k
         \<or> (\<exists>e. res = Inl e \<and> k < length actions
               \<and> execute_action c (actions ! k) (ws ! k) = (Inl e, w')
               \<and> prefix (events (ws ! k)) (events w')))"
proof -
  from perform_loop_run [OF assms [unfolded perform_actions_def]]
  obtain k ws rs where *: "k \<le> length actions" "length ws = Suc k" "length rs = k" "ws ! 0 = w"
     "\<forall>i<k. execute_action c (actions ! i) (ws ! i) = (Inr (rs ! i), ws ! Suc i)"
     "events (ws ! k)
        = events w @ map (\<lambda>a. Request (endpoint c (action_path a))) (take k actions)"
     "res = Inr ([] @ rs) \<and> k = length actions \<and> w' = ws ! k
         \<or> (\<exists>e. res = Inl e \<and> k < length actions
               \<and> execute_action c (actions ! k) (ws ! k) = (Inl e, w'))"
    by blast
  have "prefix (events (ws ! k)) (events w')"
    if "execute_action c (actions ! k) (ws ! k) = (Inl e, w')" for e
    using events_execute_action [of c "actions ! k" "ws ! k"] that by (simp add: prefix_def)
  with * show ?thesis
    by (intro exI [of _ k] exI [of _ ws] exI [of _ rs]) auto
qed

lemma fake_new:
  "outcome (fake_http_client w ''http://127.0.0.1:9333/json/new?url=https%3A%2F%2Fexample.com'')
     = Inr (JsonDoc (JObj [(''id'', JStr ''target-1'')]))"
  by (simp add: fake_http_client_def sublist_Cons_right suffix_to_prefix)

lemma fake_activate:
  "outcome (fake_http_client w ''http://127.0.0.1:9333/json/activate/target-1'')
     = Inr (JsonDoc (JObj [(''status'', JStr ''ok'')]))"
  by (simp add: fake_http_client_def sublist_Cons_right suffix_to_prefix)

lemma fake_close:
  "outcome (fake_http_client w ''http://127.0.0.1:9333/json/close/target-1'')
     = Inr (JsonDoc (JObj [(''status'', JStr ''ok'')]))"
  by (simp add: fake_http_client_def sublist_Cons_right suffix_to_prefix)

lemma fake_elapsed: "elapsed (fake_http_client w url) = 0"
  by (simp add: fake_http_client_def)

lemma test_run:
  "perform_actions (test_controller fake_http_client 15) test_actions world0 =
     (Inr [JObj [(''id'', JStr ''target-1'')], JObj [(''status'', JStr ''ok'')],
           JObj [(''status'', JStr ''ok'')]],
      world0\<lparr>events :=
        [Request ''http://127.0.0.1:9333/json/new?url=https%3A%2F%2Fexample.com'',
         Request ''http://127.0.0.1:9333/json/activate/target-1'',
         Request ''http://127.0.0.1:9333/json/close/target-1'']\<rparr>)"
  by (simp add: perform_actions_def test_actions_def execute_action_def dict_get_def open_tab_def
      activate_tab_def close_tab_def request_json_def request_def test_controller_def
      str_int_9333 quote_plus_example quote_plus_url fake_new fake_activate fake_close fake_elapsed
      json_loads_def world0_def)

theorem perform_actions_sequential_witness:
  "\<exists>k ws rs. k \<le> length test_actions \<and> length ws = Suc k \<and> length rs = k \<and> ws ! 0 = world0
     \<and> (\<forall>i<k. execute_action (test_controller fake_http_client 15) (test_actions ! i) (ws ! i)
                 = (Inr (rs ! i), ws ! Suc i))
     \<and> rs = [JObj [(''id'', JStr ''target-1'')], JObj [(''status'', JStr ''ok'')],
             JObj [(''status'', JStr ''ok'')]]
     \<and> k = 3
     \<and> events (ws ! k) =
         [Request ''http://127.0.0.1:9333/json/new?url=https%3A%2F%2Fexample.com'',
          Request ''http://127.0.0.1:9333/json/activate/target-1'',
          Request ''http://127.0.0.1:9333/json/close/target-1'']"
  using perform_actions_sequential [OF test_run]
  apply (elim exE conjE)
  subgoal for k ws rs
    apply (rule exI [of _ k], rule exI [of _ ws], rule exI [of _ rs])
    apply (auto simp: test_actions_def world0_def endpoint_def action_path_def dict_get_def
        test_controller_def str_int_9333 quote_plus_example)
    done
  done


section \<open>The readiness loop\<close>

lemma wait_loop_timeout:
  "\<not> now w < deadline \<Longrightarrow>
   wait_loop c deadline last_error w =
     (Inl (Exn TimeoutError ''Browser did not become ready in time'' last_error), w)"
  by (simp add: wait_loop.simps)

lemma wait_loop_retry:
  "now w < deadline \<Longrightarrow> list_tabs c w = (Inl exc, w') \<Longrightarrow>
   wait_loop c deadline last_error w = wait_loop c deadline (Some exc) (sleep (1 / 2) w')"
  by (simp add: wait_loop.simps)

lemma wait_loop_success:
  "now w < deadline \<Longrightarrow> list_tabs c w = (Inr tabs, w') \<Longrightarrow>
   wait_loop c deadline last_error w = (Inr (), w')"
  by (simp add: wait_loop.simps)

lemma events_failed_rounds:
  "events (failed_rounds c n w) =
     events w @ concat (replicate n [Request (endpoint c ''/json/list''), Sleep (1 / 2)])"
  by (induction n arbitrary: w) (simp_all add: sleep_def events_list_tabs)

lemma wait_loop_rounds:
  "wait_loop c deadline last_error w = (res, w') \<Longrightarrow>
   \<exists>n. (\<forall>i<n. now (failed_rounds c i w) < deadline \<and> round_error c i w \<noteq> None)
     \<and> (if now (failed_rounds c n w) < deadline
         then (\<exists>tabs. list_tabs c (failed_rounds c n w) = (Inr tabs, w')) \<and> res = Inr ()
         else w' = failed_rounds c n w
            \<and> res = Inl (Exn TimeoutError ''Browser did not become ready in time''
                        (if n = 0 then last_error else round_error c (n - 1) w)))"
proof (induction c deadline last_error w rule: wait_loop.induct)
  case (1 c deadline last_error w)
  show ?case
  proof (cases "now w < deadline")
    case False
    with "1.prems" show ?thesis
      by (intro exI [of _ 0]) (simp add: wait_loop_timeout)
  next
    case True
    obtain r w1 where lt: "list_tabs c w = (r, w1)"
      by (cases "list_tabs c w")
    show ?thesis
    proof (cases r)
      case (Inr tabs)
      with True lt "1.prems" show ?thesis
        by (intro exI [of _ 0]) (simp add: wait_loop_success)
    next
      case (Inl exc)
      with True lt "1.prems"
      have rec: "wait_loop c deadline (Some exc) (sleep (1 / 2) w1) = (res, w')"
        by (simp add: wait_loop_retry)
      have shift: "failed_rounds c (Suc i) w = failed_rounds c i (sleep (1 / 2) w1)" for i
        using lt by simp
      have err0: "round_error c 0 w = Some exc"
        using lt Inl by (simp add: round_error_def)
      have errS: "round_error c (Suc i) w = round_error c i (sleep (1 / 2) w1)" for i
        using lt by (simp add: round_error_def)
      from "1.IH" [OF True lt [symmetric] Inl rec]
      obtain n where
        all: "\<forall>i<n. now (failed_rounds c i (sleep (1 / 2) w1)) < deadline
                  \<and> round_error c i (sleep (1 / 2) w1) \<noteq> None"
        and fin: "if now (failed_rounds c n (sleep (1 / 2) w1)) < deadline
         then (\<exists>tabs. list_tabs c (failed_rounds c n (sleep (1 / 2) w1)) = (Inr tabs, w'))
            \<and> res = Inr ()
         else w' = failed_rounds c n (sleep (1 / 2) w1)
            \<and> res = Inl (Exn TimeoutError ''Browser did not become ready in time''
                        (if n = 0 then Some exc else round_error c (n - 1) (sleep (1 / 2) w1)))"
        by blast
      have all': "\<forall>i<Suc n. now (failed_rounds c i w) < deadline \<and> round_error c i w \<noteq> None"
      proof (intro allI impI)
        fix i assume "i < Suc n"
        show "now (failed_rounds c i w) < deadline \<and> round_error c i w \<noteq> None"
        proof (cases i)
          case 0
          with True err0 show ?thesis
            by simp
        next
          case (Suc j)
          with \<open>i < Suc n\<close> all show ?thesis
            by (simp only: shift errS) simp
        qed
      qed
      have last: "(if n = 0 then Some exc else round_error c (n - 1) (sleep (1 / 2) w1))
                   = round_error c (Suc n - 1) w"
        by (cases n) (simp_all add: err0 errS)
      show ?thesis
        apply (rule exI [of _ "Suc n"])
        apply (rule conjI [OF all'])
        using fin unfolding last shift by simp
    qed
  qed
qed

text \<open>
  Claim C1.  \<open>_wait_until_ready\<close> always returns or raises.  Whatever the client does and
  whatever the timeout is, there is a number \<open>n\<close> of rounds that each started before the
  deadline, failed, and were followed by a sleep of exactly half a second (the trace grows
  by \<open>n\<close> pairs of a request and \<open>Sleep (1 / 2)\<close>).  After them, either the clock is still
  before the deadline, the next \<open>list_tabs\<close> succeeds and the poller returns in the world
  that call left, with nothing after it; or the deadline has passed and the poller raises
  \<open>TimeoutError\<close> whose cause is the error of the last failed round (no cause when there
  was no round).
\<close>

theorem wait_until_ready_polls:
  assumes "wait_until_ready c w = (res, w')"
  shows "\<exists>n. (\<forall>i<n. now (failed_rounds c i w) < now w + startup_timeout c
                  \<and> round_error c i w \<noteq> None)
     \<and> events (failed_rounds c n w)
          = events w @ concat (replicate n [Request (endpoint c ''/json/list''), Sleep (1 / 2)])
     \<and> (if now (failed_rounds c n w) < now w + startup_timeout c
         then (\<exists>tabs. list_tabs c (failed_rounds c n w) = (Inr tabs, w')) \<and> res = Inr ()
            \<and> events w' = events (failed_rounds c n w) @ [Request (endpoint c ''/json/list'')]
         else w' = failed_rounds c n w
            \<and> res = Inl (Exn TimeoutError ''Browser did not become ready in time''
                        (if n = 0 then None else round_error c (n - 1) w)))"
proof -
  from assms have "wait_loop c (now w + startup_timeout c) None w = (res, w')"
    by (simp add: wait_until_ready_def)
  from wait_loop_rounds [OF this] obtain n where
    *: "\<forall>i<n. now (failed_rounds c i w) < now w + startup_timeout c \<and> round_error c i w \<noteq> None"
    "if now (failed_rounds c n w) < now w + startup_timeout c
         then (\<exists>tabs. list_tabs c (failed_rounds c n w) = (Inr tabs, w')) \<and> res = Inr ()
         else w' = failed_rounds c n w
            \<and> res = Inl (Exn TimeoutError ''Browser did not become ready in time''
                        (if n = 0 then None else round_error c (n - 1) w))"
    by blast
  have "events w' = events (failed_rounds c n w) @ [Request (endpoint c ''/json/list'')]"
    if "list_tabs c (failed_rounds c n w) = (Inr tabs, w')" for tabs
    using events_list_tabs [of c "failed_rounds c n w"] that by simp
  with * show ?thesis
    by (intro exI [of _ n]) (auto simp: events_failed_rounds split: if_splits)
qed

lemma refusing_list_tabs:
  assumes "http_client c = default_request refusing_urlopen" and "host c = ''127.0.0.1''"
    and "remote_debugging_port c = 9333"
  shows "list_tabs c w =
    (Inl refused_error, w\<lparr>events := events w @ [Request ''http://127.0.0.1:9333/json/list'']\<rparr>)"
  using assms
  by (simp add: list_tabs_def request_json_def request_def default_request_def
      refusing_urlopen_def refused_def refused_error_def str_int_9333 Let_def)

lemma refusing_wait:
  assumes c: "http_client c = default_request refusing_urlopen" "host c = ''127.0.0.1''"
    "remote_debugging_port c = 9333" and t: "startup_timeout c = 1"
  shows "wait_until_ready c w =
    (Inl (Exn TimeoutError ''Browser did not become ready in time'' (Some refused_error)),
     w\<lparr>now := now w + 1, events := events w @ polling\<rparr>)"
proof -
  let ?R = "Request ''http://127.0.0.1:9333/json/list''"
  let ?d = "now w + 1"
  let ?w1 = "sleep (1 / 2) (w\<lparr>events := events w @ [?R]\<rparr>)"
  let ?w2 = "sleep (1 / 2) (?w1\<lparr>events := events ?w1 @ [?R]\<rparr>)"
  have s1: "wait_loop c ?d None w = wait_loop c ?d (Some refused_error) ?w1"
    by (rule wait_loop_retry [OF _ refusing_list_tabs [OF c]]) simp
  have s2: "wait_loop c ?d (Some refused_error) ?w1 = wait_loop c ?d (Some refused_error) ?w2"
    by (rule wait_loop_retry [OF _ refusing_list_tabs [OF c]]) (simp add: sleep_def)
  have s3: "wait_loop c ?d (Some refused_error) ?w2 =
      (Inl (Exn TimeoutError ''Browser did not become ready in time'' (Some refused_error)), ?w2)"
    by (rule wait_loop_timeout) (simp add: sleep_def)
  show ?thesis
    unfolding wait_until_ready_def Let_def t s1 s2 s3 by (simp add: sleep_def polling_def)
qed

lemma refusing_wait0:
  "wait_until_ready (test_controller (default_request refusing_urlopen) 1) world0 =
    (Inl (Exn TimeoutError ''Browser did not become ready in time'' (Some refused_error)),
     world0\<lparr>now := 1, events := polling\<rparr>)"
  using refusing_wait [of "test_controller (default_request refusing_urlopen) 1" world0]
  by (simp add: test_controller_def world0_def)

theorem wait_until_ready_polls_witness:
  "wait_until_ready (test_controller (default_request refusing_urlopen) 1) world0 =
     (Inl (Exn TimeoutError ''Browser did not become ready in time'' (Some refused_error)),
      world0\<lparr>now := 1, events := polling\<rparr>)
   \<and> (\<exists>n. (\<forall>i<n. now (failed_rounds (test_controller (default_request refusing_urlopen) 1) i world0) < 1
              \<and> round_error (test_controller (default_request refusing_urlopen) 1) i world0 \<noteq> None)
        \<and> round_error (test_controller (default_request refusing_urlopen) 1) (n - 1) world0
            = Some refused_error
        \<and> n \<noteq> 0)"
  using wait_until_ready_polls [OF refusing_wait0]
  apply (elim exE conjE)
  subgoal for n
    apply (rule conjI [OF refusing_wait0])
    apply (rule exI [of _ n])
    apply (simp add: world0_def test_controller_def split: if_splits)
    done
  done


section \<open>Launching\<close>



lemma wait_loop_procs: "procs (snd (wait_loop c deadline last_error w)) = procs w"
proof (induction c deadline last_error w rule: wait_loop.induct)
  case (1 c deadline last_error w)
  show ?case
  proof (cases "now w < deadline")
    case False
    then show ?thesis
      by (simp add: wait_loop_timeout)
  next
    case True
    obtain r w1 where lt: "list_tabs c w = (r, w1)"
      by (cases "list_tabs c w")
    then have p1: "procs w1 = procs w"
      using procs_request_json [of c "''/json/list''" w] by (simp add: list_tabs_def)
    show ?thesis
    proof (cases r)
      case (Inr tabs)
      with True lt p1 show ?thesis
        by (simp add: wait_loop_success)
    next
      case (Inl exc)
      from "1.IH" [OF True lt [symmetric] Inl] True lt Inl p1 show ?thesis
        by (simp add: wait_loop_retry sleep_def)
    qed
  qed
qed

lemma wait_loop_error:
  "wait_loop c deadline last_error w = (Inl e, w') \<Longrightarrow> exn_class_of e = TimeoutError"
proof (induction c deadline last_error w rule: wait_loop.induct)
  case (1 c deadline last_error w)
  show ?case
  proof (cases "now w < deadline")
    case False
    with "1.prems" show ?thesis
      by (auto simp: wait_loop_timeout)
  next
    case True
    obtain r w1 where lt: "list_tabs c w = (r, w1)"
      by (cases "list_tabs c w")
    show ?thesis
    proof (cases r)
      case (Inr tabs)
      with True lt "1.prems" show ?thesis
        by (simp add: wait_loop_success)
    next
      case (Inl exc)
      with True lt "1.prems"
      have "wait_loop c deadline (Some exc) (sleep (1 / 2) w1) = (Inl e, w')"
        by (simp add: wait_loop_retry)
      from "1.IH" [OF True lt [symmetric] Inl this] show ?thesis .
    qed
  qed
qed




text \<open>
  Claim C7.  When the controller holds a handle whose process runs, \<open>launch_browser\<close>
  returns at once: the controller and the world (trace, clock, process table) are the ones
  it was called with, so nothing was spawned and nothing was polled.
\<close>

theorem launch_browser_running_noop:
  assumes "process c = Some h" and "handle_is_running h w"
  shows "launch_browser c headless user_data_dir additional_args w = (Inr (), c, w)"
  using assms by (simp add: launch_browser_def)

theorem launch_browser_running_noop_witness:
  "launch_browser ((test_controller fake_http_client 15)\<lparr>process := Some 0\<rparr>) True None None
      running_world
     = (Inr (), (test_controller fake_http_client 15)\<lparr>process := Some 0\<rparr>, running_world)"
  by (rule launch_browser_running_noop [of _ 0])
     (simp_all add: handle_is_running_def popen_poll_def running_world_def world0_def)

section \<open>Terminating\<close>

lemma handle_wait_ok:
  "\<exists>rc w'. handle_wait h t w = (Inr rc, w') \<and> events w' = events w
     \<and> (\<not> handle_is_running h w \<longrightarrow> w' = w)"
  by (simp add: handle_wait_def popen_wait_def handle_is_running_def popen_poll_def
      split: proc_state.splits)

lemma handle_terminate_events:
  "events (handle_terminate h w) = events w @ (if handle_is_running h w then [Terminate h] else [])"
  by (simp add: handle_terminate_def handle_is_running_def popen_terminate_def Let_def)

text \<open>
  Claim C8.  \<open>terminate_browser\<close> never raises and leaves the controller without a handle;
  a second call right after it returns normally and changes nothing.  Without a handle the
  first call changes nothing either.  With a handle, \<open>Popen.terminate\<close> is called exactly
  when the process still runs: for a process that has exited no signal is sent and the
  world stays as it was.
\<close>

theorem terminate_browser_idempotent:
  "\<exists>c' w'. terminate_browser c w = (Inr (), c', w')
     \<and> process c' = None
     \<and> terminate_browser c' w' = (Inr (), c', w')
     \<and> (process c = None \<longrightarrow> c' = c \<and> w' = w)
     \<and> (\<forall>h. process c = Some h \<longrightarrow>
           events w' = events w @ (if handle_is_running h w then [Terminate h] else [])
           \<and> (\<not> handle_is_running h w \<longrightarrow> w' = w))"
proof (cases "process c")
  case None
  then show ?thesis
    by (simp add: terminate_browser_def)
next
  case (Some h)
  obtain rc w2 where hw: "handle_wait h 5 (handle_terminate h w) = (Inr rc, w2)"
     "events w2 = events (handle_terminate h w)"
     "\<not> handle_is_running h (handle_terminate h w) \<longrightarrow> w2 = handle_terminate h w"
    using handle_wait_ok [of h 5 "handle_terminate h w"] by blast
  have "\<not> handle_is_running h w \<Longrightarrow> handle_terminate h w = w"
    by (auto simp: handle_terminate_def handle_is_running_def)
  with Some hw show ?thesis
    by (auto simp: terminate_browser_def handle_terminate_events)
qed

theorem terminate_browser_idempotent_witness:
  "\<exists>c' w'. terminate_browser ((test_controller fake_http_client 15)\<lparr>process := Some 0\<rparr>)
        running_world = (Inr (), c', w')
     \<and> process c' = None
     \<and> terminate_browser c' w' = (Inr (), c', w')
     \<and> events w' = [Terminate 0]"
  using terminate_browser_idempotent
    [of "(test_controller fake_http_client 15)\<lparr>process := Some 0\<rparr>" running_world]
  apply (elim exE conjE)
  subgoal for c' w'
    apply (rule exI [of _ c'], rule exI [of _ w'])
    apply (simp add: handle_is_running_def popen_poll_def running_world_def world0_def)
    done
  done

section \<open>A launch that times out\<close>

text \<open>
  Claim C10.  When \<open>launch_browser\<close> has spawned a process and the readiness poll then
  fails, the error is the poller's \<open>TimeoutError\<close> and the controller keeps the handle of
  the new process.  Right after the failed launch \<open>is_browser_running\<close> says what the
  process did when it was spawned, and in every world in which that process runs,
  \<open>is_browser_running\<close> is true and another \<open>launch_browser\<close> returns at once with the
  controller and the world unchanged: no spawn, no poll.
\<close>

theorem failed_launch_keeps_handle:
  assumes "\<not> is_browser_running c w"
    and "spawn c (launch_args c headless user_data_dir additional_args) w = (Inr h, w1)"
    and "wait_until_ready (c\<lparr>process := Some h\<rparr>) w1 = (Inl e, w2)"
  shows "launch_browser c headless user_data_dir additional_args w
           = (Inl e, c\<lparr>process := Some h\<rparr>, w2)
     \<and> exn_class_of e = TimeoutError
     \<and> h = nprocs w
     \<and> is_browser_running (c\<lparr>process := Some h\<rparr>) w2 = handle_is_running h w1
     \<and> (\<forall>w'. handle_is_running h w' \<longrightarrow>
           is_browser_running (c\<lparr>process := Some h\<rparr>) w'
           \<and> (\<forall>headless' user_data_dir' additional_args'.
                 launch_browser (c\<lparr>process := Some h\<rparr>) headless' user_data_dir'
                     additional_args' w'
                   = (Inr (), c\<lparr>process := Some h\<rparr>, w')))"
proof -
  from assms(1) have nr: "\<not> (case process c of None \<Rightarrow> False | Some h \<Rightarrow> handle_is_running h w)"
    by (simp add: is_browser_running_def)
  have 1: "launch_browser c headless user_data_dir additional_args w
             = (Inl e, c\<lparr>process := Some h\<rparr>, w2)"
    using nr assms(2,3) by (simp add: launch_browser_def)
  have 2: "exn_class_of e = TimeoutError"
    using assms(3) unfolding wait_until_ready_def Let_def by (rule wait_loop_error)
  have 3: "h = nprocs w"
    using assms(2) by (auto simp: spawn_def Let_def split: sum.splits)
  have "procs w2 = procs w1"
    using wait_loop_procs [of "c\<lparr>process := Some h\<rparr>" "now w1 + startup_timeout c" None w1]
      assms(3)
    by (simp add: wait_until_ready_def)
  then have 4: "is_browser_running (c\<lparr>process := Some h\<rparr>) w2 = handle_is_running h w1"
    by (simp add: is_browser_running_def handle_is_running_def popen_poll_def)
  show ?thesis
    using 1 2 3 4 by (simp add: is_browser_running_def launch_browser_def)
qed

lemma test_spawn:
  "spawn (test_controller (default_request refusing_urlopen) 1)
     (launch_args (test_controller (default_request refusing_urlopen) 1) True None None) world0
   = (Inr 0, running_world\<lparr>events :=
        [Spawn [''/usr/bin/chrome'', ''--remote-debugging-port=9333'', ''--remote-allow-origins=*'',
                ''--headless=new'']]\<rparr>)"
  by (simp add: spawn_def launch_args_def test_controller_def fake_process_factory_def
      running_world_def world0_def str_int_9333 Let_def)

theorem failed_launch_keeps_handle_witness:
  "launch_browser (test_controller (default_request refusing_urlopen) 1) True None None world0
     = (Inl (Exn TimeoutError ''Browser did not become ready in time'' (Some refused_error)),
        (test_controller (default_request refusing_urlopen) 1)\<lparr>process := Some 0\<rparr>,
        running_world\<lparr>now := 1,
          events := Spawn [''/usr/bin/chrome'', ''--remote-debugging-port=9333'',
                           ''--remote-allow-origins=*'', ''--headless=new''] # polling\<rparr>)
   \<and> is_browser_running ((test_controller (default_request refusing_urlopen) 1)\<lparr>process := Some 0\<rparr>)
        running_world
   \<and> launch_browser ((test_controller (default_request refusing_urlopen) 1)\<lparr>process := Some 0\<rparr>)
        True None None running_world
      = (Inr (), (test_controller (default_request refusing_urlopen) 1)\<lparr>process := Some 0\<rparr>,
         running_world)"
proof -
  let ?c = "test_controller (default_request refusing_urlopen) 1"
  let ?w1 = "running_world\<lparr>events :=
        [Spawn [''/usr/bin/chrome'', ''--remote-debugging-port=9333'', ''--remote-allow-origins=*'',
                ''--headless=new'']]\<rparr>"
  have nr: "\<not> is_browser_running ?c world0"
    by (simp add: is_browser_running_def test_controller_def)
  have wait: "wait_until_ready (?c\<lparr>process := Some 0\<rparr>) ?w1 =
      (Inl (Exn TimeoutError ''Browser did not become ready in time'' (Some refused_error)),
       ?w1\<lparr>now := now ?w1 + 1, events := events ?w1 @ polling\<rparr>)"
    by (rule refusing_wait) (simp_all add: test_controller_def)
  have alive: "handle_is_running 0 running_world"
    by (simp add: handle_is_running_def popen_poll_def running_world_def)
  from failed_launch_keeps_handle [OF nr test_spawn wait] alive
  show ?thesis
    by (simp add: running_world_def world0_def)
qed

section \<open>The command runner\<close>

lemma extend_args_eq:
  "extend_args cmd xs =
     (if blocked xs
      then Inl (SecurityError (''Arguments containing '' @ quoted ''--unsafe'' @ '' are blocked''))
      else Inr (cmd @ xs))"
  by (induction xs arbitrary: cmd) (simp_all add: blocked_def)

text \<open>
  Claim C9, as amended.  When the name is not in the allowlist, or some extra argument
  starts with \<open>--unsafe\<close>, \<open>run\<close> raises \<open>SecurityError\<close> and the world is as it was: no
  command has been executed.  Otherwise the registered command with the extra arguments
  appended is executed, once.  The completed process (exit status and captured output)
  is returned when the exit status is 0; a command that ends with another status makes
  \<open>run\<close> raise \<open>CalledProcessError\<close>, which carries the status and the output; a command
  that cannot be started makes it raise the operating system's error.
\<close>

theorem run_gate:
  "(if \<not> is_allowed b name \<or> blocked (extras extra_args)
    then \<exists>msg. run os b name extra_args w = (Inl (SecurityError msg), w)
    else \<exists>cmd. cmd = the (allowlist b name) @ extras extra_args
       \<and> events (snd (run os b name extra_args w)) = events w @ [Exec cmd]
       \<and> fst (run os b name extra_args w) =
           (case os cmd (environment b) of
              Inl e \<Rightarrow> Inl (StartError e)
            | Inr (rc, out, err) \<Rightarrow>
                if rc = 0 then Inr \<lparr>args = cmd, returncode = 0, stdout = out, stderr = err\<rparr>
                else Inl (CalledProcessError rc cmd out err)))"
  by (auto simp: run_def is_allowed_def extend_args_eq extras_def subprocess_run_def Let_def
      blocked_def split: option.splits sum.splits)

theorem run_gate_witness:
  "(\<exists>msg. run grep_os test_bridge ''rm'' None world0 = (Inl (SecurityError msg), world0))
   \<and> (\<exists>msg. run grep_os test_bridge ''check'' (Some [''x'', ''--unsafe-perm'']) world0
               = (Inl (SecurityError msg), world0))
   \<and> events (snd (run grep_os test_bridge ''check'' (Some [''x'']) world0))
       = [Exec [''grep'', ''-q'', ''x'']]
   \<and> fst (run grep_os test_bridge ''check'' (Some [''x'']) world0)
       = Inr \<lparr>args = [''grep'', ''-q'', ''x''], returncode = 0, stdout = [], stderr = []\<rparr>"
  using run_gate [of test_bridge "''rm''" None grep_os world0]
    run_gate [of test_bridge "''check''" "Some [''x'', ''--unsafe-perm'']" grep_os world0]
    run_gate [of test_bridge "''check''" "Some [''x'']" grep_os world0]
  by (simp add: is_allowed_def test_bridge_def blocked_def extras_def grep_os_def world0_def)

theorem nonzero_exit_counterexample:
  "fst (run grep_os test_bridge ''check'' (Some [''needle'']) world0)
     = Inl (CalledProcessError 1 [''grep'', ''-q'', ''needle''] [] [])"
  by (simp add: run_def test_bridge_def grep_os_def subprocess_run_def Let_def)


end
